theory Spec2Isabelle
  imports Complex_Main
begin

section \<open>Orbit propagation and impact effects (app.py)\<close>

text \<open>
  The numerical engine of \<^verbatim>\<open>app.py\<close>: \<^verbatim>\<open>_solve_keplers_equation\<close>,
  \<^verbatim>\<open>kepler_to_cartesian\<close> and \<^verbatim>\<open>compute_impact_effects\<close>.

  Python floats are modelled as the reals: rounding, overflow, infinities and NaN are
  outside this development, and every statement below is about the exact arithmetic the
  code writes down. What the interpreter raises on exact values is kept: a float division by
  zero is \<open>ZeroDivisionError\<close>, \<^verbatim>\<open>math.sqrt\<close> of a negative number and
  \<^verbatim>\<open>math.fmod\<close> by zero are \<open>ValueError\<close>.
\<close>

subsection \<open>Python arithmetic\<close>

datatype error = ZeroDivisionError | ValueError

text \<open>The value of a Python arithmetic expression on floats: a float or, from
  \<^verbatim>\<open>**\<close> on a negative base, a complex number.\<close>

datatype pynum = PyFloat real | PyComplex complex

definition float_div :: "real \<Rightarrow> real \<Rightarrow> error + real" where
  "float_div x y = (if y = 0 then Inl ZeroDivisionError else Inr (x / y))"

definition math_sqrt :: "real \<Rightarrow> error + real" where
  "math_sqrt x = (if x < 0 then Inl ValueError else Inr (sqrt x))"

definition math_radians :: "real \<Rightarrow> real" where
  "math_radians x = x * (pi / 180)"

text \<open>\<^verbatim>\<open>math.fmod\<close> is C's \<^verbatim>\<open>fmod\<close>: the quotient is truncated towards zero, so the
  result has the sign of the dividend.\<close>

definition trunc :: "real \<Rightarrow> int" where
  "trunc q = (if 0 \<le> q then \<lfloor>q\<rfloor> else \<lceil>q\<rceil>)"

definition math_fmod :: "real \<Rightarrow> real \<Rightarrow> error + real" where
  "math_fmod x y = (if y = 0 then Inl ValueError else Inr (x - y * of_int (trunc (x / y))))"

text \<open>\<^verbatim>\<open>math.atan2(y, x)\<close>, the angle of the point \<open>(x, y)\<close> in \<open>(-\<pi>, \<pi>]\<close>.\<close>

definition math_atan2 :: "real \<Rightarrow> real \<Rightarrow> real" where
  "math_atan2 y x =
     (if 0 < x then arctan (y / x)
      else if x < 0 \<and> 0 \<le> y then arctan (y / x) + pi
      else if x < 0 then arctan (y / x) - pi
      else if 0 < y then pi / 2
      else if y < 0 then - (pi / 2)
      else 0)"

text \<open>\<^verbatim>\<open>x ** y\<close> on floats: a zero base with a negative exponent raises, a negative base
  with a fractional exponent gives the principal complex power
  \<open>|x|\<^sup>y \<cdot> (cos (\<pi> y) + i sin (\<pi> y))\<close>.\<close>

definition float_pow :: "real \<Rightarrow> real \<Rightarrow> error + pynum" where
  "float_pow x y =
     (if y = 0 then Inr (PyFloat 1)
      else if x = 0 then (if y < 0 then Inl ZeroDivisionError else Inr (PyFloat 0))
      else if x < 0 \<and> y \<noteq> of_int \<lfloor>y\<rfloor> then Inr (PyComplex (rcis ((- x) powr y) (pi * y)))
      else if x < 0 then Inr (PyFloat (x powi \<lfloor>y\<rfloor>))
      else Inr (PyFloat (x powr y)))"

text \<open>A float times, and divided by, the result of \<^verbatim>\<open>**\<close>.\<close>

fun float_times :: "real \<Rightarrow> pynum \<Rightarrow> pynum" where
  "float_times c (PyFloat r) = PyFloat (c * r)"
| "float_times c (PyComplex z) = PyComplex (of_real c * z)"

fun over_float :: "pynum \<Rightarrow> real \<Rightarrow> error + pynum" where
  "over_float (PyFloat r) d = (if d = 0 then Inl ZeroDivisionError else Inr (PyFloat (r / d)))"
| "over_float (PyComplex z) d = (if d = 0 then Inl ZeroDivisionError else Inr (PyComplex (z / of_real d)))"

subsection \<open>The Kepler solver\<close>

text \<open>
  \<^verbatim>\<open>_solve_keplers_equation(e, M, tol=1e-10)\<close>: Newton-Raphson from \<open>E = M\<close>,
  \<^verbatim>\<open>for _ in range(50)\<close>. One pass of the loop body computes \<open>f\<close>, \<open>f_prime\<close> and
  \<open>delta\<close>, adds \<open>delta\<close> to \<open>E\<close> and breaks when \<open>|delta| < tol\<close>.
\<close>

definition kepler_f :: "real \<Rightarrow> real \<Rightarrow> real \<Rightarrow> real" where
  "kepler_f e M E = E - e * sin E - M"

definition kepler_f_prime :: "real \<Rightarrow> real \<Rightarrow> real" where
  "kepler_f_prime e E = 1 - e * cos E"

definition newton_delta :: "real \<Rightarrow> real \<Rightarrow> real \<Rightarrow> real" where
  "newton_delta e M E = - kepler_f e M E / kepler_f_prime e E"

definition newton_update :: "real \<Rightarrow> real \<Rightarrow> real \<Rightarrow> real" where
  "newton_update e M E = E + newton_delta e M E"

text \<open>The loop, with the number of passes \<^verbatim>\<open>range\<close> still has to give.\<close>

fun newton_loop :: "real \<Rightarrow> real \<Rightarrow> real \<Rightarrow> nat \<Rightarrow> real \<Rightarrow> error + real" where
  "newton_loop e M tol 0 E = Inr E"
| "newton_loop e M tol (Suc k) E =
     (let f = E - e * sin E - M;
          f_prime = 1 - e * cos E
      in if f_prime = 0 then Inl ZeroDivisionError
         else let delta = - f / f_prime;
                  E' = E + delta
              in if \<bar>delta\<bar> < tol then Inr E' else newton_loop e M tol k E')"

definition solve_keplers_equation :: "real \<Rightarrow> real \<Rightarrow> real \<Rightarrow> error + real" where
  "solve_keplers_equation e M tol = newton_loop e M tol 50 M"

definition default_tol :: real where
  "default_tol = 1 / 10 ^ 10"

subsection \<open>The orbit propagator\<close>

text \<open>A sample of the trajectory, the dictionary \<^verbatim>\<open>{"x": x, "y": y, "z": z}\<close>.\<close>

record position =
  pos_x :: real
  pos_y :: real
  pos_z :: real

text \<open>\<^verbatim>\<open>t = (j / (steps - 1)) * dt_total\<close>: a true division of two integers, which raises
  when \<open>steps = 1\<close>.\<close>

definition sample_time :: "int \<Rightarrow> real \<Rightarrow> nat \<Rightarrow> error + real" where
  "sample_time steps dt_total j =
     (case float_div (real j) (of_int (steps - 1)) of
        Inl err \<Rightarrow> Inl err
      | Inr q \<Rightarrow> Inr (q * dt_total))"

text \<open>\<^verbatim>\<open>M_t = M0 + n * t\<close> followed by \<^verbatim>\<open>M_t = math.fmod(M_t, 2 * math.pi)\<close>: the value
  handed to the solver.\<close>

definition normalized_mean_anomaly :: "real \<Rightarrow> real \<Rightarrow> real \<Rightarrow> error + real" where
  "normalized_mean_anomaly M0 n t = math_fmod (M0 + n * t) (2 * pi)"

text \<open>The rest of the loop body, from the elapsed time \<open>t\<close> to the position.\<close>

definition position_at ::
  "real \<Rightarrow> real \<Rightarrow> real \<Rightarrow> real \<Rightarrow> real \<Rightarrow> real \<Rightarrow> real \<Rightarrow> real \<Rightarrow> error + position" where
  "position_at a_km e i omega w M0 n t =
     (case normalized_mean_anomaly M0 n t of
        Inl err \<Rightarrow> Inl err
      | Inr M_t \<Rightarrow>
     (case solve_keplers_equation e M_t default_tol of
        Inl err \<Rightarrow> Inl err
      | Inr E \<Rightarrow>
     (case math_sqrt (1 + e) of
        Inl err \<Rightarrow> Inl err
      | Inr root_plus \<Rightarrow>
     (case math_sqrt (1 - e) of
        Inl err \<Rightarrow> Inl err
      | Inr root_minus \<Rightarrow>
        (let nu = 2 * math_atan2 (root_plus * sin (E / 2)) (root_minus * cos (E / 2));
             r = a_km * (1 - e * cos E);
             x_op = r * cos nu;
             y_op = r * sin nu;
             z_op = 0;
             cos_w = cos w;
             sin_w = sin w;
             x1 = cos_w * x_op - sin_w * y_op;
             y1 = sin_w * x_op + cos_w * y_op;
             z1 = z_op;
             cos_i = cos i;
             sin_i = sin i;
             x2 = x1;
             y2 = cos_i * y1 - sin_i * z1;
             z2 = sin_i * y1 + cos_i * z1;
             cos_omega = cos omega;
             sin_omega = sin omega;
             x = cos_omega * x2 - sin_omega * y2;
             y = sin_omega * x2 + cos_omega * y2;
             z = z2
         in Inr \<lparr>pos_x = x, pos_y = y, pos_z = z\<rparr>)))))"

text \<open>\<^verbatim>\<open>for j in range(steps)\<close> over the indices still to visit, appending to
  \<open>positions\<close>; an exception in the body leaves the loop.\<close>

fun sample_loop ::
  "real \<Rightarrow> real \<Rightarrow> real \<Rightarrow> real \<Rightarrow> real \<Rightarrow> real \<Rightarrow> real \<Rightarrow> int \<Rightarrow> real \<Rightarrow>
   nat list \<Rightarrow> position list \<Rightarrow> error + position list" where
  "sample_loop a_km e i omega w M0 n steps dt_total [] positions = Inr positions"
| "sample_loop a_km e i omega w M0 n steps dt_total (j # js) positions =
     (case sample_time steps dt_total j of
        Inl err \<Rightarrow> Inl err
      | Inr t \<Rightarrow>
     (case position_at a_km e i omega w M0 n t of
        Inl err \<Rightarrow> Inl err
      | Inr p \<Rightarrow> sample_loop a_km e i omega w M0 n steps dt_total js (positions @ [p])))"

text \<open>The mean motion \<^verbatim>\<open>n = math.sqrt(mu / (a_km**3))\<close>, computed before the loop.
  \<^verbatim>\<open>a_km**3\<close> has an integer exponent, so it is a plain cube.\<close>

definition mean_motion :: "real \<Rightarrow> real \<Rightarrow> error + real" where
  "mean_motion mu a_km =
     (case float_div mu (a_km ^ 3) of
        Inl err \<Rightarrow> Inl err
      | Inr q \<Rightarrow> math_sqrt q)"

text \<open>\<^verbatim>\<open>kepler_to_cartesian(a, e, i_deg, omega_deg, w_deg, M_deg, mu, steps, timespan_days)\<close>.
  \<^verbatim>\<open>range(steps)\<close> is empty for \<open>steps \<le> 0\<close>.\<close>

definition kepler_to_cartesian ::
  "real \<Rightarrow> real \<Rightarrow> real \<Rightarrow> real \<Rightarrow> real \<Rightarrow> real \<Rightarrow> real \<Rightarrow> int \<Rightarrow> real \<Rightarrow> error + position list" where
  "kepler_to_cartesian a e i_deg omega_deg w_deg M_deg mu steps timespan_days =
     (let i = math_radians i_deg;
          omega = math_radians omega_deg;
          w = math_radians w_deg;
          M0 = math_radians M_deg;
          a_km = a * 149600000
      in case mean_motion mu a_km of
           Inl err \<Rightarrow> Inl err
         | Inr n \<Rightarrow>
           (let dt_total = timespan_days * 24 * 3600
            in sample_loop a_km e i omega w M0 n steps dt_total [0..<nat steps] []))"

definition default_mu :: real where
  "default_mu = 132712440018"

subsection \<open>The impact effects estimator\<close>

text \<open>The dictionary \<^verbatim>\<open>compute_impact_effects\<close> returns. The crater diameter is the
  product of a float and a \<^verbatim>\<open>**\<close>, so it is a float or a complex number.\<close>

record impact_effects =
  kinetic_energy_joules :: real
  energy_megatons_tnt :: real
  crater_diameter_km :: pynum
  seismic_magnitude :: real

definition compute_impact_effects ::
  "real \<Rightarrow> real \<Rightarrow> real \<Rightarrow> real \<Rightarrow> real \<Rightarrow> error + impact_effects" where
  "compute_impact_effects diameter_m density velocity_m_per_s impact_angle_deg crater_coeff =
     (let radius = diameter_m / 2;
          volume = (4 / 3) * pi * radius ^ 3;
          mass = volume * density;
          angle_rad = math_radians impact_angle_deg;
          v_vertical = velocity_m_per_s * sin angle_rad;
          kinetic_energy = 0.5 * mass * v_vertical ^ 2;
          energy_mt = kinetic_energy / 4184000000 / 1000000
      in case float_pow kinetic_energy 0.25 of
           Inl err \<Rightarrow> Inl err
         | Inr root4 \<Rightarrow>
        (case over_float (float_times crater_coeff root4) 1000 of
           Inl err \<Rightarrow> Inl err
         | Inr crater_diameter \<Rightarrow>
           (let magnitude =
                  (if kinetic_energy > 0 then (log 10 kinetic_energy - 4.8) / 1.5 else 0)
            in Inr \<lparr>kinetic_energy_joules = kinetic_energy,
                     energy_megatons_tnt = energy_mt,
                     crater_diameter_km = crater_diameter,
                     seismic_magnitude = magnitude\<rparr>)))"

definition default_crater_coeff :: real where
  "default_crater_coeff = 1 / 100"

subsection \<open>The formulas of the specification\<close>

text \<open>The four metrics as the specification of the estimator writes them, to be compared
  with what \<open>compute_impact_effects\<close> computes.\<close>

definition spec_kinetic_energy :: "real \<Rightarrow> real \<Rightarrow> real \<Rightarrow> real \<Rightarrow> real" where
  "spec_kinetic_energy diameterMeters densityKgM3 velocityMetersPerSecond impactAngleDeg =
     0.5 * ((4 / 3) * pi * (diameterMeters / 2) ^ 3 * densityKgM3)
         * (velocityMetersPerSecond * sin (impactAngleDeg * pi / 180)) ^ 2"

definition spec_energy_megatons :: "real \<Rightarrow> real" where
  "spec_energy_megatons kineticEnergyJoules = kineticEnergyJoules / 4184000000 / 1000000"

definition spec_crater_diameter_km :: "real \<Rightarrow> real \<Rightarrow> real" where
  "spec_crater_diameter_km craterCoefficient kineticEnergyJoules =
     craterCoefficient * kineticEnergyJoules powr 0.25 / 1000"

definition spec_seismic_magnitude :: "real \<Rightarrow> real" where
  "spec_seismic_magnitude kineticEnergyJoules =
     (if kineticEnergyJoules > 0 then (log 10 kineticEnergyJoules - 4.8) / 1.5 else 0)"

subsection \<open>A periodic orbit of the Newton iteration\<close>

text \<open>
  An input of the solver inside the range \<open>0 \<le> e \<le> 0.99\<close>, \<open>0 \<le> M < 2\<pi>\<close> on which the
  Newton iteration started at \<open>E = M\<close> alternates between \<open>M\<close> and \<open>M + 4\<pi>/3\<close>:
  \<open>cycle_e \<approx> 0.974134\<close> and \<open>cycle_M \<approx> 0.289253\<close>, with the step \<open>cycle_d = 4\<pi>/3\<close>.
\<close>

definition cycle_d :: real where
  "cycle_d = 4 * pi / 3"

definition cycle_e :: real where
  "cycle_e = cycle_d * sqrt (1 + cycle_d\<^sup>2) / (cycle_d + (cycle_d\<^sup>2 - 1) * sqrt 3 / 2)"

definition cycle_M :: real where
  "cycle_M = arctan cycle_d - pi / 3"

subsection \<open>The solver: the Newton denominator and the shape of a run\<close>

lemma f_prime_lower: "0 \<le> e \<Longrightarrow> 1 - e \<le> kepler_f_prime e E"
proof -
  assume "0 \<le> e"
  then have "e * cos E \<le> e * 1" by (intro mult_left_mono) simp_all
  then show ?thesis by (simp add: kepler_f_prime_def)
qed

lemma f_prime_pos: assumes "\<bar>e\<bar> < 1" shows "0 < kepler_f_prime e E"
proof -
  have "\<bar>e * cos E\<bar> \<le> \<bar>e\<bar> * 1" unfolding abs_mult by (intro mult_left_mono) simp_all
  with assms have "e * cos E < 1" by linarith
  then show ?thesis by (simp add: kepler_f_prime_def)
qed

lemma newton_loop_Suc:
  "newton_loop e M tol (Suc k) E =
     (if kepler_f_prime e E = 0 then Inl ZeroDivisionError
      else if \<bar>newton_delta e M E\<bar> < tol then Inr (newton_update e M E)
      else newton_loop e M tol k (newton_update e M E))"
  by (simp add: Let_def kepler_f_prime_def newton_delta_def newton_update_def kepler_f_def)

lemma newton_loop_trace:
  assumes "\<bar>e\<bar> < 1"
  shows "\<exists>k. 1 \<le> k \<and> k \<le> Suc n
           \<and> newton_loop e M tol (Suc n) E = Inr ((newton_update e M ^^ k) E)
           \<and> (\<forall>i. i + 1 < k \<longrightarrow> \<not> \<bar>newton_delta e M ((newton_update e M ^^ i) E)\<bar> < tol)
           \<and> (k < Suc n \<longrightarrow> \<bar>newton_delta e M ((newton_update e M ^^ (k - 1)) E)\<bar> < tol)"
proof (induction n arbitrary: E)
  case 0
  have nz: "kepler_f_prime e E \<noteq> 0" using f_prime_pos [OF assms, of E] by simp
  show ?case
    by (rule exI [of _ 1]) (simp add: newton_loop_Suc nz del: newton_loop.simps(2))
next
  case (Suc n)
  have nz: "kepler_f_prime e E \<noteq> 0" using f_prime_pos [OF assms, of E] by simp
  show ?case
  proof (cases "\<bar>newton_delta e M E\<bar> < tol")
    case True
    show ?thesis
      by (rule exI [of _ 1]) (simp add: newton_loop_Suc [of e M tol "Suc n"] nz True del: newton_loop.simps(2))
  next
    case False
    from Suc.IH [of "newton_update e M E"] obtain k where k:
      "1 \<le> k" "k \<le> Suc n"
      "newton_loop e M tol (Suc n) (newton_update e M E) = Inr ((newton_update e M ^^ k) (newton_update e M E))"
      "\<forall>i. i + 1 < k \<longrightarrow> \<not> \<bar>newton_delta e M ((newton_update e M ^^ i) (newton_update e M E))\<bar> < tol"
      "k < Suc n \<longrightarrow> \<bar>newton_delta e M ((newton_update e M ^^ (k - 1)) (newton_update e M E))\<bar> < tol"
      by blast
    have shift: "(newton_update e M ^^ j) (newton_update e M E) = (newton_update e M ^^ Suc j) E" for j
      by (simp add: funpow_swap1)
    have early: "\<not> \<bar>newton_delta e M ((newton_update e M ^^ i) E)\<bar> < tol" if "i + 1 < Suc k" for i
    proof (cases i)
      case 0
      then show ?thesis using False by simp
    next
      case (Suc i')
      with that have "i' + 1 < k" by simp
      with k(4) have "\<not> \<bar>newton_delta e M ((newton_update e M ^^ i') (newton_update e M E))\<bar> < tol" by blast
      then show ?thesis unfolding shift Suc .
    qed
    have last: "\<bar>newton_delta e M ((newton_update e M ^^ (Suc k - 1)) E)\<bar> < tol" if "Suc k < Suc (Suc n)"
    proof -
      from that k(5) have "\<bar>newton_delta e M ((newton_update e M ^^ (k - 1)) (newton_update e M E))\<bar> < tol" by simp
      moreover from k(1) have "Suc (k - 1) = k" by simp
      ultimately show ?thesis unfolding shift by simp
    qed
    have res: "newton_loop e M tol (Suc (Suc n)) E = Inr ((newton_update e M ^^ Suc k) E)"
      using k(3) False nz unfolding shift by (simp add: newton_loop_Suc [of e M tol "Suc n"] del: newton_loop.simps(2) funpow.simps)
    have "1 \<le> Suc k" "Suc k \<le> Suc (Suc n)" using k(2) by simp_all
    with res early last show ?thesis
      by (intro exI [of _ "Suc k"] conjI allI impI)
  qed
qed

lemma solver_returns: assumes "\<bar>e\<bar> < 1" shows "\<exists>E. solve_keplers_equation e M tol = Inr E"
proof -
  have "(50::nat) = Suc 49" by simp
  then show ?thesis
    using newton_loop_trace [OF assms, of 49 M tol M] unfolding solve_keplers_equation_def by metis
qed

text \<open>
  Claim C9. For an eccentricity \<open>0 \<le> e < 1\<close> the Newton denominator
  \<open>f'(E) = 1 - e cos E\<close> is at least \<open>1 - e > 0\<close> at every \<open>E\<close>, hence at every
  iterate of the solver; the division of the update step never divides by zero and the
  solver returns a value instead of raising, for every mean anomaly and tolerance.
\<close>

theorem newton_denominator_positive:
  assumes "0 \<le> e" and "e < 1"
  shows "1 - e \<le> kepler_f_prime e E \<and> 0 < 1 - e \<and> kepler_f_prime e E \<noteq> 0
         \<and> (\<exists>E'. solve_keplers_equation e M tol = Inr E')"
proof -
  from assms have small: "\<bar>e\<bar> < 1" by simp
  have "0 < kepler_f_prime e E" by (rule f_prime_pos [OF small])
  then have "kepler_f_prime e E \<noteq> 0" by simp
  with f_prime_lower [OF assms(1), of E] assms(2) solver_returns [OF small, of M tol]
  show ?thesis by simp
qed

theorem newton_denominator_positive_witness:
  "(0::real) \<le> 99 / 100 \<and> (99 / 100 :: real) < 1
   \<and> 1 - 99 / 100 \<le> kepler_f_prime (99 / 100) 0 \<and> kepler_f_prime (99 / 100) 0 \<noteq> 0
   \<and> (\<exists>E'. solve_keplers_equation (99 / 100) 0 default_tol = Inr E')"
  using newton_denominator_positive [of "99 / 100" 0 0 default_tol] by simp

text \<open>
  Claim C7. For an eccentricity \<open>0 \<le> e < 1\<close>, every real mean anomaly \<open>M\<close> and the
  default tolerance, the solver returns the \<open>k\<close>-th Newton iterate from \<open>E = M\<close> for some
  \<open>1 \<le> k \<le> 50\<close>: no update before the last one was below the tolerance, and when fewer
  than 50 updates were made the last one was below it. With the budget of 50 used up the
  result is the last computed \<open>E\<close>, not an error.
\<close>

theorem solver_terminates:
  assumes "0 \<le> e" and "e < 1"
  shows "\<exists>k. 1 \<le> k \<and> k \<le> 50
           \<and> solve_keplers_equation e M default_tol = Inr ((newton_update e M ^^ k) M)
           \<and> (\<forall>i. i + 1 < k \<longrightarrow>
                  \<not> \<bar>newton_delta e M ((newton_update e M ^^ i) M)\<bar> < default_tol)
           \<and> (k < 50 \<longrightarrow>
                  \<bar>newton_delta e M ((newton_update e M ^^ (k - 1)) M)\<bar> < default_tol)"
proof -
  from assms have small: "\<bar>e\<bar> < 1" by simp
  have fifty: "(50::nat) = Suc 49" by simp
  show ?thesis
    unfolding solve_keplers_equation_def fifty
    by (rule newton_loop_trace [OF small])
qed

theorem solver_terminates_witness:
  "(0::real) \<le> 1 / 2 \<and> (1 / 2 :: real) < 1
   \<and> (\<exists>k. 1 \<le> k \<and> k \<le> 50
           \<and> solve_keplers_equation (1 / 2) 1 default_tol = Inr ((newton_update (1 / 2) 1 ^^ k) 1)
           \<and> (\<forall>i. i + 1 < k \<longrightarrow>
                  \<not> \<bar>newton_delta (1 / 2) 1 ((newton_update (1 / 2) 1 ^^ i) 1)\<bar> < default_tol)
           \<and> (k < 50 \<longrightarrow>
                  \<bar>newton_delta (1 / 2) 1 ((newton_update (1 / 2) 1 ^^ (k - 1)) 1)\<bar> < default_tol))"
  using solver_terminates [of "1 / 2" 1] by simp

subsection \<open>The solver: circular orbits\<close>

lemma newton_loop_circular: "newton_loop 0 M tol k M = Inr M"
  by (induction k) simp_all

text \<open>
  Claim C8. With eccentricity \<open>e = 0\<close> the solver returns exactly the mean anomaly it was
  given, for every real \<open>M\<close> and every tolerance: the first Newton step has
  \<open>delta = 0\<close>, and so has every later one.
\<close>

theorem solve_circular_returns_M: "solve_keplers_equation 0 M tol = Inr M"
  unfolding solve_keplers_equation_def by (rule newton_loop_circular)

subsection \<open>The solver: residual of the result\<close>

lemma sin_increment_bound: "\<bar>sin (E + d) - sin E\<bar> \<le> \<bar>d\<bar>" for E d :: real
proof -
  have "sin (E + d) - sin E = 2 * sin (d / 2) * cos ((E + d + E) / 2)"
    using sin_diff_sin [of "E + d" E] by simp
  then have "\<bar>sin (E + d) - sin E\<bar> = 2 * \<bar>sin (d / 2)\<bar> * \<bar>cos ((E + d + E) / 2)\<bar>"
    by (simp add: abs_mult)
  also have "\<dots> \<le> 2 * \<bar>sin (d / 2)\<bar> * 1"
    by (intro mult_left_mono) simp_all
  also have "\<dots> \<le> 2 * \<bar>d / 2\<bar>"
    using abs_sin_x_le_abs_x [of "d / 2"] by simp
  also have "\<dots> = \<bar>d\<bar>" by simp
  finally show ?thesis .
qed

lemma newton_step_residual:
  assumes "kepler_f_prime e E \<noteq> 0"
  shows "\<bar>kepler_f e M (newton_update e M E)\<bar> \<le> 2 * \<bar>e\<bar> * \<bar>newton_delta e M E\<bar>"
proof -
  define d where "d = newton_delta e M E"
  have "d * kepler_f_prime e E = - kepler_f e M E"
    unfolding d_def newton_delta_def using assms by simp
  then have "d - d * (e * cos E) = - (E - e * sin E - M)"
    by (simp add: kepler_f_prime_def kepler_f_def algebra_simps)
  then have "E + d - e * sin (E + d) - M = e * (d * cos E) - e * (sin (E + d) - sin E)"
    by (simp add: algebra_simps)
  then have "kepler_f e M (newton_update e M E) = e * (d * cos E - (sin (E + d) - sin E))"
    unfolding newton_update_def kepler_f_def d_def [symmetric] by (simp add: algebra_simps)
  then have "\<bar>kepler_f e M (newton_update e M E)\<bar> = \<bar>e\<bar> * \<bar>d * cos E - (sin (E + d) - sin E)\<bar>"
    by (simp add: abs_mult)
  also have "\<dots> \<le> \<bar>e\<bar> * (\<bar>d\<bar> + \<bar>d\<bar>)"
  proof (intro mult_left_mono)
    have "\<bar>d * cos E\<bar> \<le> \<bar>d\<bar> * 1" unfolding abs_mult by (intro mult_left_mono) simp_all
    with sin_increment_bound [of E d]
    show "\<bar>d * cos E - (sin (E + d) - sin E)\<bar> \<le> \<bar>d\<bar> + \<bar>d\<bar>" by linarith
  qed simp
  finally show ?thesis unfolding d_def by simp
qed

lemma sin_cubic_lower: "x - x ^ 3 / 6 - \<bar>x\<bar> ^ 4 / 24 \<le> sin (x::real)"
proof -
  have "(\<Sum>m<4. sin_coeff m * x ^ m) = x - x ^ 3 / 6"
    by (simp add: sin_coeff_def lessThan_nat_numeral fact_numeral)
  with Maclaurin_sin_bound [of x 4] have "\<bar>sin x - (x - x ^ 3 / 6)\<bar> \<le> inverse (fact 4) * \<bar>x\<bar> ^ 4"
    by simp
  moreover have "inverse (fact 4 :: real) = 1 / 24" by (simp add: fact_numeral)
  ultimately have "\<bar>sin x - (x - x ^ 3 / 6)\<bar> \<le> \<bar>x\<bar> ^ 4 / 24" by simp
  then have "- (sin x - (x - x ^ 3 / 6)) \<le> \<bar>x\<bar> ^ 4 / 24" by (simp only: abs_le_iff)
  then show ?thesis by linarith
qed

lemma pi_less_18_5: "pi < 18 / 5"
proof (rule ccontr)
  assume "\<not> pi < 18 / 5"
  then have lo: "3 / 5 \<le> pi / 6" by simp
  have hi: "pi / 6 \<le> 2 / 3" using pi_less_4 by simp
  have nn: "0 \<le> pi / 6" by simp
  have c: "(pi / 6) ^ 3 \<le> (2 / 3) ^ 3" using hi nn by (rule power_mono)
  have q: "(pi / 6) ^ 4 \<le> (2 / 3) ^ 4" using hi nn by (rule power_mono)
  have "pi / 6 - (pi / 6) ^ 3 / 6 - \<bar>pi / 6\<bar> ^ 4 / 24 \<le> 1 / 2"
    using sin_cubic_lower [of "pi / 6"] by (simp only: sin_30)
  moreover have "\<bar>pi / 6\<bar> = pi / 6" by simp
  ultimately have "pi / 6 - (pi / 6) ^ 3 / 6 - (pi / 6) ^ 4 / 24 \<le> 1 / 2" by simp
  moreover have "(2 / 3 :: real) ^ 3 = 8 / 27" "(2 / 3 :: real) ^ 4 = 16 / 81" by (simp_all add: power_divide)
  ultimately show False using lo c q by linarith
qed


lemma cycle_d_bounds: "8 / 3 \<le> cycle_d" "cycle_d < 24 / 5"
  using pi_ge_two pi_less_18_5 by (simp_all add: cycle_d_def)

lemma sqrt3_bounds: "173 / 100 \<le> sqrt 3" "sqrt 3 \<le> 2"
proof -
  show "173 / 100 \<le> sqrt 3" by (rule real_le_rsqrt) (simp add: power2_eq_square)
  show "sqrt 3 \<le> 2" by (rule real_le_lsqrt) simp_all
qed

lemma cycle_root_bounds:
  "0 < sqrt (1 + cycle_d\<^sup>2)" "cycle_d * sqrt (1 + cycle_d\<^sup>2) \<le> cycle_d\<^sup>2 + 1 / 2"
proof -
  have d: "0 < cycle_d" using cycle_d_bounds(1) by simp
  have "0 < 1 + cycle_d\<^sup>2" by (simp add: add_pos_nonneg)
  then show "0 < sqrt (1 + cycle_d\<^sup>2)" by simp
  have "sqrt (1 + cycle_d\<^sup>2) \<le> cycle_d + 1 / (2 * cycle_d)"
  proof (rule real_le_lsqrt)
    show "0 \<le> cycle_d + 1 / (2 * cycle_d)" using d by simp
    have "(cycle_d + 1 / (2 * cycle_d))\<^sup>2 = cycle_d\<^sup>2 + 1 + (1 / (2 * cycle_d))\<^sup>2"
      using d by (simp add: power2_sum)
    then show "1 + cycle_d\<^sup>2 \<le> (cycle_d + 1 / (2 * cycle_d))\<^sup>2" by simp
  qed
  then have "cycle_d * sqrt (1 + cycle_d\<^sup>2) \<le> cycle_d * (cycle_d + 1 / (2 * cycle_d))"
    using d by (intro mult_left_mono) simp_all
  also have "\<dots> = cycle_d\<^sup>2 + 1 / 2" using d by (simp add: power2_eq_square distrib_left)
  finally show "cycle_d * sqrt (1 + cycle_d\<^sup>2) \<le> cycle_d\<^sup>2 + 1 / 2" .
qed

lemma cycle_denominator:
  "0 < cycle_d + (cycle_d\<^sup>2 - 1) * sqrt 3 / 2"
  "cycle_d\<^sup>2 + 1 / 2 \<le> 99 / 100 * (cycle_d + (cycle_d\<^sup>2 - 1) * sqrt 3 / 2)"
proof -
  define q where "q = cycle_d\<^sup>2"
  have "(cycle_d - 8 / 3) * (cycle_d - 24 / 5) \<le> 0"
    using cycle_d_bounds by (intro mult_nonneg_nonpos) simp_all
  moreover have "(cycle_d - 8 / 3) * (cycle_d - 24 / 5) = q - 112 / 15 * cycle_d + 64 / 5"
    unfolding q_def power2_eq_square by (simp add: field_simps)
  ultimately have upper: "q \<le> 112 / 15 * cycle_d - 64 / 5"
    by linarith
  have "8 / 3 * (8 / 3) \<le> cycle_d * cycle_d"
    using cycle_d_bounds(1) by (intro mult_mono) simp_all
  then have lower: "64 / 9 \<le> q" by (simp add: q_def power2_eq_square)
  then have "0 \<le> q - 1" by simp
  then have scaled: "(q - 1) * (173 / 100) \<le> (q - 1) * sqrt 3"
    using sqrt3_bounds(1) by (intro mult_left_mono)
  define r where "r = (q - 1) * sqrt 3 / 2"
  from scaled have root: "173 / 200 * q - 173 / 200 \<le> r" unfolding r_def by (simp add: field_simps)
  from root lower cycle_d_bounds(1) have "0 < cycle_d + r" by linarith
  then show "0 < cycle_d + (cycle_d\<^sup>2 - 1) * sqrt 3 / 2" unfolding r_def q_def .
  from root upper lower cycle_d_bounds have "q + 1 / 2 \<le> 99 / 100 * cycle_d + 99 / 100 * r"
    by linarith
  then have "q + 1 / 2 \<le> 99 / 100 * (cycle_d + r)" by (simp only: distrib_left)
  then show "cycle_d\<^sup>2 + 1 / 2 \<le> 99 / 100 * (cycle_d + (cycle_d\<^sup>2 - 1) * sqrt 3 / 2)"
    unfolding r_def q_def .
qed

lemma cycle_e_bounds: "0 \<le> cycle_e" "cycle_e \<le> 99 / 100"
proof -
  have d: "0 \<le> cycle_d" using cycle_d_bounds(1) by simp
  show "0 \<le> cycle_e"
    unfolding cycle_e_def using d cycle_root_bounds(1) cycle_denominator(1)
    by (intro divide_nonneg_nonneg mult_nonneg_nonneg) simp_all
  have "cycle_d * sqrt (1 + cycle_d\<^sup>2) \<le> 99 / 100 * (cycle_d + (cycle_d\<^sup>2 - 1) * sqrt 3 / 2)"
    using cycle_root_bounds(2) cycle_denominator(2) by (rule order_trans)
  then show "cycle_e \<le> 99 / 100"
    unfolding cycle_e_def using cycle_denominator(1) by (simp only: pos_divide_le_eq)
qed


lemma cycle_e_less_one: "\<bar>cycle_e\<bar> < 1"
  using cycle_e_bounds by simp

lemma cycle_M_bounds: "0 \<le> cycle_M" "cycle_M < 2 * pi"
proof -
  have "- (pi / 2) < pi / 3" and "pi / 3 < pi / 2" using pi_gt_zero by linarith+
  then have "arctan (tan (pi / 3)) = pi / 3" by (rule arctan_tan)
  then have third: "arctan (sqrt 3) = pi / 3" by (simp only: tan_60)
  have "sqrt 3 \<le> cycle_d" using sqrt3_bounds(2) cycle_d_bounds(1) by linarith
  then have "arctan (sqrt 3) \<le> arctan cycle_d" by (simp only: arctan_le_iff)
  then show "0 \<le> cycle_M" unfolding cycle_M_def third by simp
  have "arctan cycle_d < pi / 2" by (rule arctan_ubound)
  then show "cycle_M < 2 * pi" unfolding cycle_M_def using pi_gt_zero by linarith
qed

lemma cycle_M_trig:
  "sin cycle_M = (cycle_d - sqrt 3) / (2 * sqrt (1 + cycle_d\<^sup>2))"
  "cos cycle_M = (1 + cycle_d * sqrt 3) / (2 * sqrt (1 + cycle_d\<^sup>2))"
  unfolding cycle_M_def sin_diff cos_diff sin_arctan cos_arctan sin_60 cos_60
  by (simp_all add: diff_divide_distrib add_divide_distrib)

lemma cycle_far_point: "cycle_M + cycle_d = arctan cycle_d + pi"
  by (simp add: cycle_M_def cycle_d_def)

lemma cycle_far_trig:
  "sin (cycle_M + cycle_d) = - (cycle_d / sqrt (1 + cycle_d\<^sup>2))"
  "cos (cycle_M + cycle_d) = - (1 / sqrt (1 + cycle_d\<^sup>2))"
  unfolding cycle_far_point sin_periodic_pi cos_periodic_pi sin_arctan cos_arctan
  by simp_all

lemma cycle_e_equation:
  "cycle_e * (cycle_d + (cycle_d\<^sup>2 - 1) * sqrt 3 / 2) = cycle_d * sqrt (1 + cycle_d\<^sup>2)"
  unfolding cycle_e_def using cycle_denominator(1) by simp

lemma cycle_step_out: "newton_delta cycle_e cycle_M cycle_M = cycle_d"
proof -
  define s where "s = sqrt (1 + cycle_d\<^sup>2)"
  have s: "0 < s" unfolding s_def by (rule cycle_root_bounds(1))
  have ss: "s * s = 1 + cycle_d\<^sup>2" unfolding s_def by (simp add: add_nonneg_nonneg)
  have nz: "kepler_f_prime cycle_e cycle_M \<noteq> 0"
    using f_prime_pos [OF cycle_e_less_one, of cycle_M] by simp
  have eq: "cycle_e * (cycle_d + (cycle_d\<^sup>2 - 1) * sqrt 3 / 2) = cycle_d * s"
    unfolding s_def by (rule cycle_e_equation)
  have "cycle_e * sin cycle_M + cycle_d * (cycle_e * cos cycle_M)
          = cycle_e * (cycle_d + (cycle_d\<^sup>2 - 1) * sqrt 3 / 2) / s"
    unfolding cycle_M_trig s_def [symmetric] using s
    by (simp add: field_simps power2_eq_square)
  also have "\<dots> = cycle_d" unfolding eq using s by simp
  finally have "cycle_e * sin cycle_M = cycle_d * (1 - cycle_e * cos cycle_M)"
    by (simp add: algebra_simps)
  then have "- kepler_f cycle_e cycle_M cycle_M = cycle_d * kepler_f_prime cycle_e cycle_M"
    by (simp add: kepler_f_def kepler_f_prime_def)
  then show ?thesis unfolding newton_delta_def using nz by (simp add: field_simps)
qed

lemma cycle_step_back: "newton_delta cycle_e cycle_M (cycle_M + cycle_d) = - cycle_d"
proof -
  define s where "s = sqrt (1 + cycle_d\<^sup>2)"
  have s: "0 < s" unfolding s_def by (rule cycle_root_bounds(1))
  have nz: "kepler_f_prime cycle_e (cycle_M + cycle_d) \<noteq> 0"
    using f_prime_pos [OF cycle_e_less_one, of "cycle_M + cycle_d"] by simp
  have "kepler_f cycle_e cycle_M (cycle_M + cycle_d) = cycle_d * (1 + cycle_e / s)"
    unfolding kepler_f_def cycle_far_trig s_def [symmetric] by (simp add: algebra_simps)
  moreover have "kepler_f_prime cycle_e (cycle_M + cycle_d) = 1 + cycle_e / s"
    unfolding kepler_f_prime_def cycle_far_trig s_def [symmetric] by simp
  ultimately have "- kepler_f cycle_e cycle_M (cycle_M + cycle_d)
                     = - cycle_d * kepler_f_prime cycle_e (cycle_M + cycle_d)"
    by simp
  then show ?thesis unfolding newton_delta_def using nz by (simp add: field_simps)
qed

lemma cycle_loop:
  assumes "\<not> \<bar>cycle_d\<bar> < tol"
  shows "newton_loop cycle_e cycle_M tol (2 * n) cycle_M = Inr cycle_M"
proof (induction n)
  case 0
  show ?case by simp
next
  case (Suc n)
  have two: "2 * Suc n = Suc (Suc (2 * n))" by simp
  have nz1: "kepler_f_prime cycle_e cycle_M \<noteq> 0"
    using f_prime_pos [OF cycle_e_less_one, of cycle_M] by simp
  have nz2: "kepler_f_prime cycle_e (cycle_M + cycle_d) \<noteq> 0"
    using f_prime_pos [OF cycle_e_less_one, of "cycle_M + cycle_d"] by simp
  have outward: "newton_update cycle_e cycle_M cycle_M = cycle_M + cycle_d"
    unfolding newton_update_def cycle_step_out by (rule refl)
  have inward: "newton_update cycle_e cycle_M (cycle_M + cycle_d) = cycle_M"
    unfolding newton_update_def cycle_step_back by simp
  from assms have big: "\<not> \<bar>- cycle_d\<bar> < tol" by simp
  have "newton_loop cycle_e cycle_M tol (Suc (Suc (2 * n))) cycle_M
          = newton_loop cycle_e cycle_M tol (Suc (2 * n)) (cycle_M + cycle_d)"
    unfolding newton_loop_Suc [of cycle_e cycle_M tol "Suc (2 * n)" cycle_M] cycle_step_out outward
    using nz1 assms by simp
  also have "\<dots> = newton_loop cycle_e cycle_M tol (2 * n) cycle_M"
    unfolding newton_loop_Suc [of cycle_e cycle_M tol "2 * n" "cycle_M + cycle_d"] cycle_step_back inward
    using nz2 big by simp
  finally show ?case unfolding two Suc.IH .
qed

lemma cycle_solver: "solve_keplers_equation cycle_e cycle_M default_tol = Inr cycle_M"
proof -
  have "\<not> \<bar>cycle_d\<bar> < default_tol"
    using cycle_d_bounds(1) by (simp add: default_tol_def)
  from cycle_loop [OF this, of 25] show ?thesis
    unfolding solve_keplers_equation_def by simp
qed

lemma cycle_residual: "\<not> \<bar>kepler_f cycle_e cycle_M cycle_M\<bar> < 1 / 10 ^ 8"
proof -
  have nz: "kepler_f_prime cycle_e cycle_M \<noteq> 0"
    using f_prime_pos [OF cycle_e_less_one, of cycle_M] by simp
  have low: "1 / 100 \<le> kepler_f_prime cycle_e cycle_M"
    using f_prime_lower [OF cycle_e_bounds(1), of cycle_M] cycle_e_bounds(2) by linarith
  have "- kepler_f cycle_e cycle_M cycle_M = cycle_d * kepler_f_prime cycle_e cycle_M"
    using cycle_step_out nz unfolding newton_delta_def by (simp add: field_simps)
  moreover have "8 / 3 * (1 / 100) \<le> cycle_d * kepler_f_prime cycle_e cycle_M"
    using cycle_d_bounds(1) low by (intro mult_mono) simp_all
  ultimately have "8 / 300 \<le> - kepler_f cycle_e cycle_M cycle_M" by simp
  then show ?thesis by simp
qed

text \<open>
  In exact arithmetic the iteration has a periodic orbit inside \<open>0 \<le> e \<le> 0.99\<close>,
  \<open>0 \<le> M < 2\<pi>\<close>: at \<open>e = cycle_e\<close>, \<open>M = cycle_M\<close> every Newton step has size
  \<open>4\<pi>/3\<close>, the 50 updates end where they started, and the solver returns \<open>E = M\<close> with
  the residual \<open>e sin M > 0.02\<close>. The orbit is unstable and its input is irrational, so
  this is a fact about the reals only: rounding to doubles leaves the orbit after a few
  updates, and whether a run on doubles converges within 50 updates for eccentricities
  above about \<open>0.973\<close> is decided by the rounding.
\<close>

lemma solver_two_cycle_residual:
  "0 \<le> cycle_e \<and> cycle_e \<le> 99 / 100 \<and> 0 \<le> cycle_M \<and> cycle_M < 2 * pi
   \<and> solve_keplers_equation cycle_e cycle_M default_tol = Inr cycle_M
   \<and> \<not> \<bar>cycle_M - cycle_e * sin cycle_M - cycle_M\<bar> < 1 / 10 ^ 8"
  using cycle_e_bounds cycle_M_bounds cycle_solver cycle_residual
  unfolding kepler_f_def by (intro conjI)

text \<open>
  A run that stops on its tolerance test before the 50 updates are used up returns a value
  whose residual is below \<open>1e-8\<close>, in exact arithmetic.
\<close>

lemma solver_residual_when_converged:
  assumes "0 \<le> e" and "e \<le> 99 / 100"
  shows "\<exists>k. 1 \<le> k \<and> k \<le> 50
           \<and> solve_keplers_equation e M default_tol = Inr ((newton_update e M ^^ k) M)
           \<and> (\<forall>i. i + 1 < k \<longrightarrow>
                  \<not> \<bar>newton_delta e M ((newton_update e M ^^ i) M)\<bar> < default_tol)
           \<and> (k < 50 \<longrightarrow> \<bar>kepler_f e M ((newton_update e M ^^ k) M)\<bar> < 1 / 10 ^ 8)"
proof -
  from assms have small: "\<bar>e\<bar> < 1" by simp
  have fifty: "(50::nat) = Suc 49" by simp
  from newton_loop_trace [OF small, of 49 M default_tol M]
  obtain k where k: "1 \<le> k" "k \<le> 50"
    and run: "solve_keplers_equation e M default_tol = Inr ((newton_update e M ^^ k) M)"
    and early: "\<forall>i. i + 1 < k \<longrightarrow> \<not> \<bar>newton_delta e M ((newton_update e M ^^ i) M)\<bar> < default_tol"
    and stop: "k < 50 \<longrightarrow> \<bar>newton_delta e M ((newton_update e M ^^ (k - 1)) M)\<bar> < default_tol"
    unfolding solve_keplers_equation_def fifty by blast
  have residual: "\<bar>kepler_f e M ((newton_update e M ^^ k) M)\<bar> < 1 / 10 ^ 8" if "k < 50"
  proof -
    define E where "E = (newton_update e M ^^ (k - 1)) M"
    from k(1) have "k = Suc (k - 1)" by simp
    then have "(newton_update e M ^^ k) M = newton_update e M ((newton_update e M ^^ (k - 1)) M)"
      by (metis funpow.simps(2) o_apply)
    then have last: "(newton_update e M ^^ k) M = newton_update e M E" unfolding E_def .
    from that stop have delta: "\<bar>newton_delta e M E\<bar> < default_tol" unfolding E_def by blast
    have nz: "kepler_f_prime e E \<noteq> 0" using f_prime_pos [OF small, of E] by simp
    have "\<bar>e\<bar> * \<bar>newton_delta e M E\<bar> \<le> 1 * \<bar>newton_delta e M E\<bar>"
      using small by (intro mult_right_mono) simp_all
    with newton_step_residual [OF nz, of M] delta
    have "\<bar>kepler_f e M (newton_update e M E)\<bar> < 2 * default_tol" by linarith
    also have "\<dots> \<le> 1 / 10 ^ 8" by (simp add: default_tol_def)
    finally show ?thesis unfolding last .
  qed
  from k run early residual show ?thesis by blast
qed

subsection \<open>The impact effects estimator: results\<close>

lemma kinetic_energy_nonneg:
  assumes "0 \<le> d" and "0 \<le> rho"
  shows "0 \<le> spec_kinetic_energy d rho v ang"
  unfolding spec_kinetic_energy_def using assms by simp

lemma float_pow_quarter_nonneg:
  assumes "0 \<le> ke" shows "float_pow ke 0.25 = Inr (PyFloat (ke powr 0.25))"
  using assms by (simp add: float_pow_def)

lemma float_pow_quarter_negative:
  assumes "ke < 0" shows "float_pow ke 0.25 = Inr (PyComplex (rcis ((- ke) powr 0.25) (pi * 0.25)))"
proof -
  have "\<lfloor>0.25::real\<rfloor> = 0" by simp
  then have "(0.25::real) \<noteq> of_int \<lfloor>0.25::real\<rfloor>" by simp
  with assms show ?thesis by (simp add: float_pow_def)
qed

lemma compute_impact_effects_energy:
  "compute_impact_effects d rho v ang k =
     (case float_pow (spec_kinetic_energy d rho v ang) 0.25 of
        Inl err \<Rightarrow> Inl err
      | Inr root4 \<Rightarrow>
        (case over_float (float_times k root4) 1000 of
           Inl err \<Rightarrow> Inl err
         | Inr crater \<Rightarrow>
             Inr \<lparr>kinetic_energy_joules = spec_kinetic_energy d rho v ang,
                  energy_megatons_tnt = spec_energy_megatons (spec_kinetic_energy d rho v ang),
                  crater_diameter_km = crater,
                  seismic_magnitude = spec_seismic_magnitude (spec_kinetic_energy d rho v ang)\<rparr>))"
proof -
  have fold_energy:
    "0.5 * ((4 / 3) * pi * (d / 2) ^ 3 * rho) * (v * sin (ang * (pi / 180))) ^ 2
       = spec_kinetic_energy d rho v ang"
    by (simp add: spec_kinetic_energy_def)
  show ?thesis
    unfolding compute_impact_effects_def Let_def math_radians_def fold_energy
      spec_energy_megatons_def spec_seismic_magnitude_def
    by (rule refl)
qed

lemma compute_impact_effects_real:
  assumes "0 \<le> d" and "0 \<le> rho"
  shows "compute_impact_effects d rho v ang k =
           Inr \<lparr>kinetic_energy_joules = spec_kinetic_energy d rho v ang,
                energy_megatons_tnt = spec_energy_megatons (spec_kinetic_energy d rho v ang),
                crater_diameter_km = PyFloat (spec_crater_diameter_km k (spec_kinetic_energy d rho v ang)),
                seismic_magnitude = spec_seismic_magnitude (spec_kinetic_energy d rho v ang)\<rparr>"
  unfolding compute_impact_effects_energy float_pow_quarter_nonneg [OF kinetic_energy_nonneg [OF assms]]
  by (simp add: spec_crater_diameter_km_def)

lemma compute_impact_effects_total: "\<exists>r. compute_impact_effects d rho v ang k = Inr r"
proof (cases "0 \<le> spec_kinetic_energy d rho v ang")
  case True
  show ?thesis unfolding compute_impact_effects_energy float_pow_quarter_nonneg [OF True]
    by simp
next
  case False
  then have neg: "spec_kinetic_energy d rho v ang < 0" by simp
  show ?thesis unfolding compute_impact_effects_energy float_pow_quarter_negative [OF neg]
    by simp
qed

lemma spec_kinetic_energy_zero: "d = 0 \<or> rho = 0 \<Longrightarrow> spec_kinetic_energy d rho v ang = 0"
  by (auto simp: spec_kinetic_energy_def)

lemma compute_impact_effects_zero:
  assumes "d = 0 \<or> rho = 0"
  shows "compute_impact_effects d rho v ang k = Inr \<lparr>kinetic_energy_joules = 0,
                energy_megatons_tnt = 0,
                crater_diameter_km = PyFloat 0,
                seismic_magnitude = 0\<rparr>"
  unfolding compute_impact_effects_energy spec_kinetic_energy_zero [OF assms]
  by (simp add: float_pow_def spec_energy_megatons_def spec_seismic_magnitude_def)

lemma float_pow_quarter_not_real:
  assumes "ke < 0"
  shows "\<exists>c. float_pow ke 0.25 = Inr (PyComplex c) \<and> Im c \<noteq> 0"
proof -
  from assms have "0 < (- ke) powr 0.25" by simp
  moreover have "0 < sin (pi * 0.25)" by (intro sin_gt_zero) simp_all
  ultimately have "Im (rcis ((- ke) powr 0.25) (pi * 0.25)) \<noteq> 0"
    unfolding Im_rcis by simp
  with float_pow_quarter_negative [OF assms] show ?thesis by blast
qed

text \<open>
  Claim C5. For an impactor with diameter and density not negative (every
  \<open>ImpactorSpec\<close> has both positive), any velocity, angle and crater coefficient,
  \<open>compute_impact_effects\<close> returns the four metrics of the specification's formulas: the
  kinetic energy \<open>0.5 \<cdot> ((4/3) \<pi> (d/2)\<^sup>3 \<rho>) \<cdot> (v sin \<theta>)\<^sup>2\<close>, that energy over
  \<open>4.184e9\<close> and \<open>1e6\<close>, the crater diameter \<open>k \<cdot> energy\<^sup>0\<^sup>.\<^sup>2\<^sup>5 / 1000\<close> as a float, and the
  magnitude \<open>(log\<^sub>1\<^sub>0 energy - 4.8) / 1.5\<close> for a positive energy, else \<open>0\<close>.
\<close>

theorem impact_metrics_formulas:
  assumes "0 \<le> d" and "0 \<le> rho"
  shows "compute_impact_effects d rho v ang k =
           Inr \<lparr>kinetic_energy_joules = spec_kinetic_energy d rho v ang,
                energy_megatons_tnt = spec_energy_megatons (spec_kinetic_energy d rho v ang),
                crater_diameter_km = PyFloat (spec_crater_diameter_km k (spec_kinetic_energy d rho v ang)),
                seismic_magnitude = spec_seismic_magnitude (spec_kinetic_energy d rho v ang)\<rparr>"
  using assms by (rule compute_impact_effects_real)

theorem impact_metrics_formulas_witness:
  "(0::real) \<le> 10 \<and> (0::real) \<le> 3000
   \<and> compute_impact_effects 10 3000 20000 90 default_crater_coeff =
           Inr \<lparr>kinetic_energy_joules = spec_kinetic_energy 10 3000 20000 90,
                energy_megatons_tnt = spec_energy_megatons (spec_kinetic_energy 10 3000 20000 90),
                crater_diameter_km =
                  PyFloat (spec_crater_diameter_km default_crater_coeff (spec_kinetic_energy 10 3000 20000 90)),
                seismic_magnitude = spec_seismic_magnitude (spec_kinetic_energy 10 3000 20000 90)\<rparr>"
  using impact_metrics_formulas [of 10 3000 20000 90 default_crater_coeff] by simp

text \<open>
  Claim C10. For a diameter and a density that are not negative, any velocity and angle,
  and a crater coefficient that is not negative (as the default \<open>1e-2\<close>),
  \<open>compute_impact_effects\<close> returns a kinetic energy, a TNT equivalent and a crater
  diameter that are real and not negative. A negative energy would make
  \<^verbatim>\<open>kinetic_energy**0.25\<close> a complex number with a non-zero imaginary part.
\<close>

theorem impact_metrics_nonnegative:
  assumes "0 \<le> d" and "0 \<le> rho" and "0 \<le> k"
  shows "(\<exists>r c. compute_impact_effects d rho v ang k = Inr r
            \<and> 0 \<le> kinetic_energy_joules r \<and> 0 \<le> energy_megatons_tnt r
            \<and> crater_diameter_km r = PyFloat c \<and> 0 \<le> c)
         \<and> (ke < 0 \<longrightarrow> (\<exists>c. float_pow ke 0.25 = Inr (PyComplex c) \<and> Im c \<noteq> 0))"
proof -
  have energy: "0 \<le> spec_kinetic_energy d rho v ang"
    by (rule kinetic_energy_nonneg [OF assms(1,2)])
  then have tnt: "0 \<le> spec_energy_megatons (spec_kinetic_energy d rho v ang)"
    by (simp add: spec_energy_megatons_def)
  have crater: "0 \<le> spec_crater_diameter_km k (spec_kinetic_energy d rho v ang)"
    using assms(3) by (simp add: spec_crater_diameter_km_def)
  have "\<exists>r c. compute_impact_effects d rho v ang k = Inr r
            \<and> 0 \<le> kinetic_energy_joules r \<and> 0 \<le> energy_megatons_tnt r
            \<and> crater_diameter_km r = PyFloat c \<and> 0 \<le> c"
    unfolding compute_impact_effects_real [OF assms(1,2)]
    using energy tnt crater by simp
  then show ?thesis using float_pow_quarter_not_real by blast
qed

theorem impact_metrics_nonnegative_witness:
  "(0::real) \<le> 10 \<and> (0::real) \<le> 3000 \<and> (0::real) \<le> default_crater_coeff
   \<and> (\<exists>r c. compute_impact_effects 10 3000 20000 45 default_crater_coeff = Inr r
            \<and> 0 \<le> kinetic_energy_joules r \<and> 0 \<le> energy_megatons_tnt r
            \<and> crater_diameter_km r = PyFloat c \<and> 0 \<le> c)
   \<and> (- 1 < (0::real) \<and> (\<exists>c. float_pow (- 1) 0.25 = Inr (PyComplex c) \<and> Im c \<noteq> 0))"
proof -
  have k: "(0::real) \<le> default_crater_coeff" by (simp add: default_crater_coeff_def)
  show ?thesis
    using impact_metrics_nonnegative [of 10 3000 default_crater_coeff 20000 45 "- 1"] k by simp
qed

text \<open>
  Claim C2, as stated, fails: the estimator checks nothing, and a diameter of \<open>0\<close> gives
  a result whose four metrics are \<open>0\<close>, not an error.
\<close>

theorem impact_zero_diameter_returns:
  "compute_impact_effects 0 3000 20000 45 default_crater_coeff =
     Inr \<lparr>kinetic_energy_joules = 0, energy_megatons_tnt = 0,
          crater_diameter_km = PyFloat 0, seismic_magnitude = 0\<rparr>"
  by (simp add: compute_impact_effects_def float_pow_def)

text \<open>
  Claim C2, amended. With a diameter or a density that is zero or negative,
  \<open>compute_impact_effects\<close> does not fail: it returns an \<open>impact_effects\<close> record, and when
  the diameter or the density is \<open>0\<close> its four metrics are all \<open>0\<close>.
\<close>

theorem impact_out_of_domain_returns:
  assumes "d \<le> 0 \<or> rho \<le> 0"
  shows "\<exists>r. compute_impact_effects d rho v ang k = Inr r
           \<and> (d = 0 \<or> rho = 0 \<longrightarrow>
                r = \<lparr>kinetic_energy_joules = 0, energy_megatons_tnt = 0,
                     crater_diameter_km = PyFloat 0, seismic_magnitude = 0\<rparr>)"
proof (cases "d = 0 \<or> rho = 0")
  case True
  then show ?thesis by (simp add: compute_impact_effects_zero)
next
  case False
  with compute_impact_effects_total [of d rho v ang k] show ?thesis by blast
qed

theorem impact_out_of_domain_returns_witness:
  "((2::real) \<le> 0 \<or> (0::real) \<le> 0)
   \<and> (\<exists>r. compute_impact_effects 2 0 1000 30 1 = Inr r
           \<and> ((2::real) = 0 \<or> (0::real) = 0)
           \<and> r = \<lparr>kinetic_energy_joules = 0, energy_megatons_tnt = 0,
                  crater_diameter_km = PyFloat 0, seismic_magnitude = 0\<rparr>)"
  using impact_out_of_domain_returns [of 2 0 1000 30 1] by simp

subsection \<open>The orbit propagator: results\<close>

lemma normalized_mean_anomaly_value:
  "normalized_mean_anomaly M0 n t = Inr (M0 + n * t - 2 * pi * of_int (trunc ((M0 + n * t) / (2 * pi))))"
  by (simp add: normalized_mean_anomaly_def math_fmod_def)

lemma normalized_mean_anomaly_range:
  assumes "0 \<le> M0 + n * t"
  shows "\<exists>M_t. normalized_mean_anomaly M0 n t = Inr M_t \<and> 0 \<le> M_t \<and> M_t < 2 * pi"
proof -
  define x where "x = M0 + n * t"
  define q where "q = x / (2 * pi)"
  define r where "r = q - of_int \<lfloor>q\<rfloor>"
  have pos: "0 < 2 * pi" by simp
  have "0 \<le> q" using assms by (simp add: q_def x_def)
  then have tr: "trunc q = \<lfloor>q\<rfloor>" by (simp add: trunc_def)
  have lo: "0 \<le> r" and hi: "r < 1" unfolding r_def by linarith+
  have "2 * pi * q = x" by (simp add: q_def)
  then have eq: "x - 2 * pi * of_int (trunc q) = 2 * pi * r"
    unfolding tr r_def right_diff_distrib by simp
  have "0 \<le> 2 * pi * r" using pos lo by (intro mult_nonneg_nonneg) simp_all
  moreover have "2 * pi * r < 2 * pi * 1" using pos hi by (intro mult_strict_left_mono)
  ultimately have "0 \<le> x - 2 * pi * of_int (trunc q) \<and> x - 2 * pi * of_int (trunc q) < 2 * pi"
    unfolding eq by simp
  then show ?thesis
    unfolding normalized_mean_anomaly_value x_def [symmetric] q_def [symmetric] by blast
qed

lemma sample_time_value:
  "steps \<noteq> 1 \<Longrightarrow> sample_time steps dt_total j = Inr (real j / of_int (steps - 1) * dt_total)"
  by (simp add: sample_time_def float_div_def)

lemma sample_time_one: "sample_time 1 dt_total j = Inl ZeroDivisionError"
  by (simp add: sample_time_def float_div_def)

lemma position_at_returns:
  assumes "\<bar>e\<bar> < 1"
  shows "\<exists>p. position_at a_km e i omega w M0 n t = Inr p"
proof -
  obtain M_t where M_t: "normalized_mean_anomaly M0 n t = Inr M_t"
    using normalized_mean_anomaly_value by blast
  obtain E where E: "solve_keplers_equation e M_t default_tol = Inr E"
    using solver_returns [OF assms] by blast
  from assms have "\<not> 1 + e < 0" "\<not> 1 - e < 0" by simp_all
  then have roots: "math_sqrt (1 + e) = Inr (sqrt (1 + e))" "math_sqrt (1 - e) = Inr (sqrt (1 - e))"
    by (simp_all add: math_sqrt_def)
  show ?thesis by (simp only: position_at_def M_t E roots sum.case Let_def) blast
qed

lemma position_at_fails:
  assumes "1 < \<bar>e\<bar>"
  shows "\<exists>err. position_at a_km e i omega w M0 n t = Inl err"
proof -
  obtain M_t where M_t: "normalized_mean_anomaly M0 n t = Inr M_t"
    using normalized_mean_anomaly_value by blast
  show ?thesis
  proof (cases "solve_keplers_equation e M_t default_tol")
    case (Inl err)
    then show ?thesis by (simp add: position_at_def M_t)
  next
    case (Inr E)
    show ?thesis
    proof (cases "e < 0")
      case True
      with assms have "1 + e < 0" by simp
      then show ?thesis by (simp add: position_at_def M_t Inr math_sqrt_def)
    next
      case False
      with assms have "1 - e < 0" "\<not> 1 + e < 0" by simp_all
      then show ?thesis by (simp add: position_at_def M_t Inr math_sqrt_def)
    qed
  qed
qed

lemma sample_loop_returns:
  assumes "steps \<noteq> 1" and "\<bar>e\<bar> < 1"
  shows "\<exists>qs. sample_loop a_km e i omega w M0 n steps dt_total js positions = Inr (positions @ qs)
           \<and> length qs = length js
           \<and> (\<forall>k. k < length js \<longrightarrow>
                 position_at a_km e i omega w M0 n (real (js ! k) / of_int (steps - 1) * dt_total)
                   = Inr (qs ! k))"
proof (induction js arbitrary: positions)
  case Nil
  show ?case by simp
next
  case (Cons j js)
  obtain p where p: "position_at a_km e i omega w M0 n (real j / of_int (steps - 1) * dt_total) = Inr p"
    using position_at_returns [OF assms(2)] by blast
  from Cons.IH [of "positions @ [p]"] obtain qs where qs:
    "sample_loop a_km e i omega w M0 n steps dt_total js (positions @ [p]) = Inr ((positions @ [p]) @ qs)"
    "length qs = length js"
    "\<forall>k. k < length js \<longrightarrow>
        position_at a_km e i omega w M0 n (real (js ! k) / of_int (steps - 1) * dt_total) = Inr (qs ! k)"
    by blast
  have run: "sample_loop a_km e i omega w M0 n steps dt_total (j # js) positions = Inr (positions @ (p # qs))"
    using qs(1)
    by (simp only: sample_loop.simps sample_time_value [OF assms(1)] p sum.case
        append_assoc append_Cons append_Nil)
  have each: "position_at a_km e i omega w M0 n (real ((j # js) ! k) / of_int (steps - 1) * dt_total)
                = Inr ((p # qs) ! k)" if "k < length (j # js)" for k
  proof (cases k)
    case 0
    then show ?thesis using p by simp
  next
    case (Suc k')
    with that have "k' < length js" by simp
    with qs(3) show ?thesis unfolding Suc by simp
  qed
  from run qs(2) each show ?case
    by (intro exI [of _ "p # qs"] conjI allI impI) simp_all
qed

lemma sample_loop_first_fails:
  assumes "\<exists>err. position_at a_km e i omega w M0 n (real j / of_int (steps - 1) * dt_total) = Inl err"
  shows "\<exists>err. sample_loop a_km e i omega w M0 n steps dt_total (j # js) positions = Inl err"
proof (cases "steps = 1")
  case True
  then show ?thesis by (simp add: sample_time_one)
next
  case False
  from assms obtain err where "position_at a_km e i omega w M0 n (real j / of_int (steps - 1) * dt_total) = Inl err"
    by blast
  then show ?thesis by (simp only: sample_loop.simps sample_time_value [OF False] sum.case) blast
qed

lemma mean_motion_returns:
  assumes "0 < a_km" and "0 \<le> mu"
  shows "mean_motion mu a_km = Inr (sqrt (mu / a_km ^ 3))"
proof -
  from assms(1) have "0 < a_km ^ 3" by simp
  with assms(2) have "a_km ^ 3 \<noteq> 0" "\<not> mu / a_km ^ 3 < 0" by (simp_all add: not_less)
  then show ?thesis by (simp add: mean_motion_def float_div_def math_sqrt_def)
qed

lemma mean_motion_zero_axis: "mean_motion mu 0 = Inl ZeroDivisionError"
  by (simp add: mean_motion_def float_div_def)

lemma mean_motion_negative_axis:
  assumes "a_km < 0" and "0 < mu"
  shows "mean_motion mu a_km = Inl ValueError"
proof -
  from assms(1) have "a_km ^ 3 < 0" by (simp add: power3_eq_cube mult_neg_pos mult_pos_neg zero_less_mult_iff)
  with assms(2) have "a_km ^ 3 \<noteq> 0" "mu / a_km ^ 3 < 0" by (simp_all add: divide_pos_neg)
  then show ?thesis by (simp add: mean_motion_def float_div_def math_sqrt_def)
qed


lemma kepler_to_cartesian_run:
  assumes "mean_motion mu (a * 149600000) = Inr n"
  shows "kepler_to_cartesian a e i_deg omega_deg w_deg M_deg mu steps timespan_days =
           sample_loop (a * 149600000) e (math_radians i_deg) (math_radians omega_deg)
             (math_radians w_deg) (math_radians M_deg) n steps (timespan_days * 24 * 3600)
             [0..<nat steps] []"
  unfolding kepler_to_cartesian_def Let_def assms
  by (rule sum.case(2))

lemma kepler_to_cartesian_no_mean_motion:
  assumes "mean_motion mu (a * 149600000) = Inl err"
  shows "kepler_to_cartesian a e i_deg omega_deg w_deg M_deg mu steps timespan_days = Inl err"
  unfolding kepler_to_cartesian_def Let_def assms
  by (rule sum.case(1))

lemma kepler_to_cartesian_zero_axis:
  "kepler_to_cartesian 0 e i_deg omega_deg w_deg M_deg mu steps timespan_days = Inl ZeroDivisionError"
proof -
  have "mean_motion mu (0 * 149600000) = Inl ZeroDivisionError"
    by (simp add: mean_motion_zero_axis)
  then show ?thesis by (rule kepler_to_cartesian_no_mean_motion)
qed

lemma kepler_to_cartesian_negative_axis:
  assumes "a < 0" and "0 < mu"
  shows "kepler_to_cartesian a e i_deg omega_deg w_deg M_deg mu steps timespan_days = Inl ValueError"
proof -
  from assms(1) have "a * 149600000 < 0" by simp
  then have "mean_motion mu (a * 149600000) = Inl ValueError"
    using assms(2) by (rule mean_motion_negative_axis)
  then show ?thesis by (rule kepler_to_cartesian_no_mean_motion)
qed

lemma mean_motion_of_axis:
  assumes "0 < a" and "0 \<le> mu"
  shows "mean_motion mu (a * 149600000) = Inr (sqrt (mu / (a * 149600000) ^ 3))"
proof -
  from assms(1) have "0 < a * 149600000" by simp
  then show ?thesis using assms(2) by (rule mean_motion_returns)
qed

lemma kepler_to_cartesian_no_steps:
  assumes "0 < a" and "0 \<le> mu" and "steps \<le> 0"
  shows "kepler_to_cartesian a e i_deg omega_deg w_deg M_deg mu steps timespan_days = Inr []"
proof -
  from assms(3) have "[0..<nat steps] = []" by simp
  then show ?thesis
    unfolding kepler_to_cartesian_run [OF mean_motion_of_axis [OF assms(1,2)]] by simp
qed

lemma kepler_to_cartesian_one_step:
  assumes "0 < a" and "0 \<le> mu"
  shows "kepler_to_cartesian a e i_deg omega_deg w_deg M_deg mu 1 timespan_days = Inl ZeroDivisionError"
proof -
  have "[0..<nat 1] = [0]" by simp
  then show ?thesis
    unfolding kepler_to_cartesian_run [OF mean_motion_of_axis [OF assms(1,2)]]
    by (simp add: sample_time_one)
qed

lemma kepler_to_cartesian_hyperbolic:
  assumes "0 < a" and "0 \<le> mu" and "1 \<le> steps" and "1 < \<bar>e\<bar>"
  shows "\<exists>err. kepler_to_cartesian a e i_deg omega_deg w_deg M_deg mu steps timespan_days = Inl err"
proof -
  from assms(3) have "[0..<nat steps] = 0 # [Suc 0..<nat steps]"
    by (simp add: upt_conv_Cons)
  then show ?thesis
    unfolding kepler_to_cartesian_run [OF mean_motion_of_axis [OF assms(1,2)]]
    using sample_loop_first_fails [OF position_at_fails [OF assms(4)]] by simp
qed

lemma kepler_to_cartesian_samples:
  assumes "0 < a" and "0 \<le> mu" and "2 \<le> steps" and "\<bar>e\<bar> < 1"
  shows "\<exists>ps n. mean_motion mu (a * 149600000) = Inr n
           \<and> kepler_to_cartesian a e i_deg omega_deg w_deg M_deg mu steps timespan_days = Inr ps
           \<and> length ps = nat steps
           \<and> (\<forall>j. j < nat steps \<longrightarrow>
                 position_at (a * 149600000) e (math_radians i_deg) (math_radians omega_deg)
                   (math_radians w_deg) (math_radians M_deg) n
                   (real j / of_int (steps - 1) * timespan_days * 86400) = Inr (ps ! j))"
proof -
  define n where "n = sqrt (mu / (a * 149600000) ^ 3)"
  have n: "mean_motion mu (a * 149600000) = Inr n"
    unfolding n_def by (rule mean_motion_of_axis [OF assms(1,2)])
  from assms(3) have steps: "steps \<noteq> 1" by simp
  from sample_loop_returns [OF steps assms(4), of "a * 149600000" "math_radians i_deg"
      "math_radians omega_deg" "math_radians w_deg" "math_radians M_deg" n
      "timespan_days * 24 * 3600" "[0..<nat steps]" "[]"]
  obtain qs where qs:
    "sample_loop (a * 149600000) e (math_radians i_deg) (math_radians omega_deg)
       (math_radians w_deg) (math_radians M_deg) n steps (timespan_days * 24 * 3600)
       [0..<nat steps] [] = Inr ([] @ qs)"
    "length qs = length [0..<nat steps]"
    "\<forall>k. k < length [0..<nat steps] \<longrightarrow>
       position_at (a * 149600000) e (math_radians i_deg) (math_radians omega_deg)
         (math_radians w_deg) (math_radians M_deg) n
         (real ([0..<nat steps] ! k) / of_int (steps - 1) * (timespan_days * 24 * 3600)) = Inr (qs ! k)"
    by blast
  have run: "kepler_to_cartesian a e i_deg omega_deg w_deg M_deg mu steps timespan_days = Inr qs"
    unfolding kepler_to_cartesian_run [OF n] qs(1) by simp
  have len: "length qs = nat steps" using qs(2) by simp
  have each: "position_at (a * 149600000) e (math_radians i_deg) (math_radians omega_deg)
                (math_radians w_deg) (math_radians M_deg) n
                (real j / of_int (steps - 1) * timespan_days * 86400) = Inr (qs ! j)"
    if "j < nat steps" for j
  proof -
    from that have j: "j < length [0..<nat steps]" and nth: "[0..<nat steps] ! j = j" by simp_all
    have time: "real j / of_int (steps - 1) * (timespan_days * 24 * 3600)
                  = real j / of_int (steps - 1) * timespan_days * 86400"
      by simp
    from qs(3) [rule_format, OF j] show ?thesis unfolding nth time .
  qed
  from n run len each show ?thesis by blast
qed

text \<open>
  Claim C3 fails on the code at a negative mean anomaly. The code comments the step as
  normalising \<open>M\<close> between \<open>0\<close> and \<open>2\<pi>\<close>, but \<^verbatim>\<open>math.fmod\<close> truncates: with
  \<^verbatim>\<open>M_deg = -90\<close> the first sample (\<open>t = 0\<close>) hands \<open>-\<pi>/2\<close> to the solver, for every
  mean motion \<open>n\<close>. (For \<open>M0 + n t \<ge> 0\<close> the value is in \<open>[0, 2\<pi>)\<close>, see
  \<open>normalized_mean_anomaly_range\<close>.)
\<close>

theorem negative_mean_anomaly_not_normalized:
  "normalized_mean_anomaly (math_radians (- 90)) n 0 = Inr (- (pi / 2)) \<and> - (pi / 2) < (0::real)"
proof -
  have q: "math_radians (- 90) + n * 0 = - (pi / 2)" by (simp add: math_radians_def)
  have "- (pi / 2) / (2 * pi) = - (1 / 4 :: real)" by simp
  moreover have "\<lceil>- (1 / 4) :: real\<rceil> = 0" by (rule ceiling_unique) simp_all
  then have "trunc (- (1 / 4)) = 0" by (simp add: trunc_def)
  ultimately have "trunc (- (pi / 2) / (2 * pi)) = 0" by simp
  then show ?thesis unfolding normalized_mean_anomaly_value q by simp
qed

text \<open>
  Claim C4. For a semi-major axis \<open>a > 0\<close>, an eccentricity \<open>0 \<le> e < 1\<close>, a gravitational
  parameter \<open>mu \<ge> 0\<close> (the default is positive) and \<open>steps \<ge> 2\<close>, for any angles and time
  span, \<open>kepler_to_cartesian\<close> returns a list of exactly \<open>steps\<close> positions; the element at
  index \<open>j\<close> is the position computed for the elapsed time
  \<open>t = j / (steps - 1) \<cdot> timespan_days \<cdot> 86400\<close>; index \<open>0\<close> is \<open>t = 0\<close> and index
  \<open>steps - 1\<close> is \<open>t = timespan_days \<cdot> 86400\<close>.
\<close>

theorem trajectory_shape:
  assumes "0 < a" and "0 \<le> e" and "e < 1" and "0 \<le> mu" and "2 \<le> steps"
  shows "\<exists>ps n. mean_motion mu (a * 149600000) = Inr n
           \<and> kepler_to_cartesian a e i_deg omega_deg w_deg M_deg mu steps timespan_days = Inr ps
           \<and> length ps = nat steps
           \<and> (\<forall>j. j < nat steps \<longrightarrow>
                 position_at (a * 149600000) e (math_radians i_deg) (math_radians omega_deg)
                   (math_radians w_deg) (math_radians M_deg) n
                   (real j / of_int (steps - 1) * timespan_days * 86400) = Inr (ps ! j))
           \<and> position_at (a * 149600000) e (math_radians i_deg) (math_radians omega_deg)
                 (math_radians w_deg) (math_radians M_deg) n 0 = Inr (ps ! 0)
           \<and> position_at (a * 149600000) e (math_radians i_deg) (math_radians omega_deg)
                 (math_radians w_deg) (math_radians M_deg) n (timespan_days * 86400)
                 = Inr (ps ! (nat steps - 1))"
proof -
  from assms(2,3) have small: "\<bar>e\<bar> < 1" by simp
  from kepler_to_cartesian_samples [OF assms(1,4,5) small, of i_deg omega_deg w_deg M_deg timespan_days]
  obtain ps n where n: "mean_motion mu (a * 149600000) = Inr n"
    and run: "kepler_to_cartesian a e i_deg omega_deg w_deg M_deg mu steps timespan_days = Inr ps"
    and len: "length ps = nat steps"
    and each: "\<forall>j. j < nat steps \<longrightarrow>
                 position_at (a * 149600000) e (math_radians i_deg) (math_radians omega_deg)
                   (math_radians w_deg) (math_radians M_deg) n
                   (real j / of_int (steps - 1) * timespan_days * 86400) = Inr (ps ! j)"
    by blast
  from assms(5) have first_index: "0 < nat steps" and last_index: "nat steps - 1 < nat steps"
    by simp_all
  have first_time: "real 0 / of_int (steps - 1) * timespan_days * 86400 = 0" by simp
  from assms(5) have "real (nat steps - 1) = of_int (steps - 1)" and "(of_int (steps - 1) :: real) \<noteq> 0"
    by simp_all
  then have last_time:
    "real (nat steps - 1) / of_int (steps - 1) * timespan_days * 86400 = timespan_days * 86400"
    by simp
  have first: "position_at (a * 149600000) e (math_radians i_deg) (math_radians omega_deg)
                 (math_radians w_deg) (math_radians M_deg) n 0 = Inr (ps ! 0)"
    using each [rule_format, OF first_index] unfolding first_time .
  have last: "position_at (a * 149600000) e (math_radians i_deg) (math_radians omega_deg)
                 (math_radians w_deg) (math_radians M_deg) n (timespan_days * 86400)
                 = Inr (ps ! (nat steps - 1))"
    using each [rule_format, OF last_index] unfolding last_time .
  from n run len each first last show ?thesis
    by (intro exI [of _ ps] exI [of _ n] conjI)
qed

theorem trajectory_shape_witness:
  "(0::real) < 1 \<and> (0::real) \<le> 1 / 5 \<and> (1 / 5 :: real) < 1 \<and> (0::real) \<le> default_mu
   \<and> (2::int) \<le> 200
   \<and> (\<exists>ps n. mean_motion default_mu (1 * 149600000) = Inr n
           \<and> kepler_to_cartesian 1 (1 / 5) 10 20 30 40 default_mu 200 (1461 / 4) = Inr ps
           \<and> length ps = nat 200
           \<and> (\<forall>j. j < nat 200 \<longrightarrow>
                 position_at (1 * 149600000) (1 / 5) (math_radians 10) (math_radians 20)
                   (math_radians 30) (math_radians 40) n
                   (real j / of_int (200 - 1) * (1461 / 4) * 86400) = Inr (ps ! j))
           \<and> position_at (1 * 149600000) (1 / 5) (math_radians 10) (math_radians 20)
                 (math_radians 30) (math_radians 40) n 0 = Inr (ps ! 0)
           \<and> position_at (1 * 149600000) (1 / 5) (math_radians 10) (math_radians 20)
                 (math_radians 30) (math_radians 40) n ((1461 / 4) * 86400)
                 = Inr (ps ! (nat 200 - 1)))"
proof -
  have h: "(0::real) < 1" "(0::real) \<le> 1 / 5" "(1 / 5 :: real) < 1" "(0::real) \<le> default_mu"
    "(2::int) \<le> 200"
    by (simp_all add: default_mu_def)
  show ?thesis
    by (intro conjI h trajectory_shape [OF h])
qed

text \<open>
  Claim C1, as stated, fails: the propagator checks nothing. With \<open>steps = 0\<close> it returns
  the empty list, and with the eccentricity \<open>-1/2\<close> it returns a trajectory; neither call
  fails.
\<close>

theorem propagate_accepts_bad_schedule_and_eccentricity:
  "kepler_to_cartesian 1 0 0 0 0 0 default_mu 0 (1461 / 4) = Inr []
   \<and> \<not> isl (kepler_to_cartesian 1 (- (1 / 2)) 0 0 0 0 default_mu 2 (1461 / 4))"
proof -
  have mu: "(0::real) \<le> default_mu" by (simp add: default_mu_def)
  have "kepler_to_cartesian 1 0 0 0 0 0 default_mu 0 (1461 / 4) = Inr []"
    by (rule kepler_to_cartesian_no_steps [OF _ mu]) simp_all
  moreover
  from kepler_to_cartesian_samples [of 1 default_mu 2 "- (1 / 2)" 0 0 0 0 "1461 / 4"] mu
  obtain ps where "kepler_to_cartesian 1 (- (1 / 2)) 0 0 0 0 default_mu 2 (1461 / 4) = Inr ps"
    by auto
  then have "\<not> isl (kepler_to_cartesian 1 (- (1 / 2)) 0 0 0 0 default_mu 2 (1461 / 4))"
    by simp
  ultimately show ?thesis by (rule conjI)
qed

text \<open>
  Claim C1, amended. \<open>kepler_to_cartesian\<close> has no validation and no \<open>InvalidInput\<close>
  error; out-of-domain inputs fail only where the arithmetic raises. With \<open>a = 0\<close> the mean
  motion raises \<open>ZeroDivisionError\<close> and with \<open>a < 0\<close> (and \<open>mu > 0\<close>) it raises
  \<open>ValueError\<close>, both before the first sample. For \<open>a > 0\<close> and \<open>mu \<ge> 0\<close>: \<open>steps = 1\<close>
  raises \<open>ZeroDivisionError\<close>; \<open>|e| > 1\<close> with \<open>steps \<ge> 1\<close> raises at the first sample;
  \<open>steps \<le> 0\<close> returns the empty list; and \<open>-1 < e < 0\<close> with \<open>steps \<ge> 2\<close> returns a
  trajectory of \<open>steps\<close> positions.
\<close>

theorem propagate_without_validation:
  "(a = 0 \<longrightarrow>
      mean_motion mu (a * 149600000) = Inl ZeroDivisionError
      \<and> kepler_to_cartesian a e i_deg omega_deg w_deg M_deg mu steps timespan_days = Inl ZeroDivisionError)
   \<and> (a < 0 \<and> 0 < mu \<longrightarrow>
      mean_motion mu (a * 149600000) = Inl ValueError
      \<and> kepler_to_cartesian a e i_deg omega_deg w_deg M_deg mu steps timespan_days = Inl ValueError)
   \<and> (0 < a \<and> 0 \<le> mu \<and> steps = 1 \<longrightarrow>
      kepler_to_cartesian a e i_deg omega_deg w_deg M_deg mu steps timespan_days = Inl ZeroDivisionError)
   \<and> (0 < a \<and> 0 \<le> mu \<and> 1 \<le> steps \<and> 1 < \<bar>e\<bar> \<longrightarrow>
      (\<exists>err. kepler_to_cartesian a e i_deg omega_deg w_deg M_deg mu steps timespan_days = Inl err))
   \<and> (0 < a \<and> 0 \<le> mu \<and> steps \<le> 0 \<longrightarrow>
      kepler_to_cartesian a e i_deg omega_deg w_deg M_deg mu steps timespan_days = Inr [])
   \<and> (0 < a \<and> 0 \<le> mu \<and> 2 \<le> steps \<and> - 1 < e \<and> e < 0 \<longrightarrow>
      (\<exists>ps. kepler_to_cartesian a e i_deg omega_deg w_deg M_deg mu steps timespan_days = Inr ps
            \<and> length ps = nat steps))"
proof (intro conjI impI)
  assume "a = 0"
  then show "mean_motion mu (a * 149600000) = Inl ZeroDivisionError"
    by (simp add: mean_motion_zero_axis)
next
  assume "a = 0"
  then show "kepler_to_cartesian a e i_deg omega_deg w_deg M_deg mu steps timespan_days = Inl ZeroDivisionError"
    by (simp only: kepler_to_cartesian_zero_axis)
next
  assume "a < 0 \<and> 0 < mu"
  then have "a * 149600000 < 0" and "0 < mu" by simp_all
  then show "mean_motion mu (a * 149600000) = Inl ValueError"
    by (rule mean_motion_negative_axis)
next
  assume "a < 0 \<and> 0 < mu"
  then have "a < 0" and "0 < mu" by simp_all
  then show "kepler_to_cartesian a e i_deg omega_deg w_deg M_deg mu steps timespan_days = Inl ValueError"
    by (rule kepler_to_cartesian_negative_axis)
next
  assume h: "0 < a \<and> 0 \<le> mu \<and> steps = 1"
  then have "0 < a" and "0 \<le> mu" by simp_all
  then have "kepler_to_cartesian a e i_deg omega_deg w_deg M_deg mu 1 timespan_days = Inl ZeroDivisionError"
    by (rule kepler_to_cartesian_one_step)
  with h show "kepler_to_cartesian a e i_deg omega_deg w_deg M_deg mu steps timespan_days = Inl ZeroDivisionError"
    by simp
next
  assume "0 < a \<and> 0 \<le> mu \<and> 1 \<le> steps \<and> 1 < \<bar>e\<bar>"
  then have "0 < a" and "0 \<le> mu" and "1 \<le> steps" and "1 < \<bar>e\<bar>" by simp_all
  then show "\<exists>err. kepler_to_cartesian a e i_deg omega_deg w_deg M_deg mu steps timespan_days = Inl err"
    by (rule kepler_to_cartesian_hyperbolic)
next
  assume "0 < a \<and> 0 \<le> mu \<and> steps \<le> 0"
  then have "0 < a" and "0 \<le> mu" and "steps \<le> 0" by simp_all
  then show "kepler_to_cartesian a e i_deg omega_deg w_deg M_deg mu steps timespan_days = Inr []"
    by (rule kepler_to_cartesian_no_steps)
next
  assume "0 < a \<and> 0 \<le> mu \<and> 2 \<le> steps \<and> - 1 < e \<and> e < 0"
  then have "0 < a" and "0 \<le> mu" and "2 \<le> steps" and "\<bar>e\<bar> < 1" by simp_all
  from kepler_to_cartesian_samples [OF this, of i_deg omega_deg w_deg M_deg timespan_days]
  obtain ps where "kepler_to_cartesian a e i_deg omega_deg w_deg M_deg mu steps timespan_days = Inr ps"
    and "length ps = nat steps" by blast
  then show "\<exists>ps. kepler_to_cartesian a e i_deg omega_deg w_deg M_deg mu steps timespan_days = Inr ps
            \<and> length ps = nat steps" by (intro exI [of _ ps] conjI)
qed

theorem propagate_without_validation_witness:
  "((0::real) = 0
      \<and> mean_motion default_mu (0 * 149600000) = Inl ZeroDivisionError
      \<and> kepler_to_cartesian 0 0 0 0 0 0 default_mu 200 (1461 / 4) = Inl ZeroDivisionError)
   \<and> ((- 1 :: real) < 0 \<and> 0 < default_mu
      \<and> mean_motion default_mu (- 1 * 149600000) = Inl ValueError
      \<and> kepler_to_cartesian (- 1) 0 0 0 0 0 default_mu 200 (1461 / 4) = Inl ValueError)
   \<and> ((0::real) < 1 \<and> 0 \<le> default_mu \<and> (1::int) = 1
      \<and> kepler_to_cartesian 1 0 0 0 0 0 default_mu 1 (1461 / 4) = Inl ZeroDivisionError)
   \<and> ((0::real) < 1 \<and> 0 \<le> default_mu \<and> (1::int) \<le> 2 \<and> (1::real) < \<bar>2\<bar>
      \<and> (\<exists>err. kepler_to_cartesian 1 2 0 0 0 0 default_mu 2 (1461 / 4) = Inl err))
   \<and> ((0::real) < 1 \<and> 0 \<le> default_mu \<and> (0::int) \<le> 0
      \<and> kepler_to_cartesian 1 0 0 0 0 0 default_mu 0 (1461 / 4) = Inr [])
   \<and> ((0::real) < 1 \<and> 0 \<le> default_mu \<and> (2::int) \<le> 2 \<and> (- 1 :: real) < - (1 / 2)
      \<and> (- (1 / 2) :: real) < 0
      \<and> (\<exists>ps. kepler_to_cartesian 1 (- (1 / 2)) 0 0 0 0 default_mu 2 (1461 / 4) = Inr ps
            \<and> length ps = nat 2))"
proof -
  have mu: "0 < default_mu" "0 \<le> default_mu" by (simp_all add: default_mu_def)
  have zero_axis: "mean_motion default_mu (0 * 149600000) = Inl ZeroDivisionError
      \<and> kepler_to_cartesian 0 0 0 0 0 0 default_mu 200 (1461 / 4) = Inl ZeroDivisionError"
    using propagate_without_validation [where a = 0 and mu = default_mu and e = 0 and i_deg = 0
        and omega_deg = 0 and w_deg = 0 and M_deg = 0 and steps = 200 and timespan_days = "1461 / 4"]
    by simp
  have negative_axis: "mean_motion default_mu (- 1 * 149600000) = Inl ValueError
      \<and> kepler_to_cartesian (- 1) 0 0 0 0 0 default_mu 200 (1461 / 4) = Inl ValueError"
    using propagate_without_validation [where a = "- 1" and mu = default_mu and e = 0 and i_deg = 0
        and omega_deg = 0 and w_deg = 0 and M_deg = 0 and steps = 200 and timespan_days = "1461 / 4"]
      mu
    by simp
  have one_step: "kepler_to_cartesian 1 0 0 0 0 0 default_mu 1 (1461 / 4) = Inl ZeroDivisionError"
    using propagate_without_validation [where a = 1 and mu = default_mu and e = 0 and i_deg = 0
        and omega_deg = 0 and w_deg = 0 and M_deg = 0 and steps = 1 and timespan_days = "1461 / 4"]
      mu
    by simp
  have hyperbolic: "\<exists>err. kepler_to_cartesian 1 2 0 0 0 0 default_mu 2 (1461 / 4) = Inl err"
    using propagate_without_validation [where a = 1 and mu = default_mu and e = 2 and i_deg = 0
        and omega_deg = 0 and w_deg = 0 and M_deg = 0 and steps = 2 and timespan_days = "1461 / 4"]
      mu
    by simp
  have no_steps: "kepler_to_cartesian 1 0 0 0 0 0 default_mu 0 (1461 / 4) = Inr []"
    using propagate_without_validation [where a = 1 and mu = default_mu and e = 0 and i_deg = 0
        and omega_deg = 0 and w_deg = 0 and M_deg = 0 and steps = 0 and timespan_days = "1461 / 4"]
      mu
    by simp
  have negative_e: "\<exists>ps. kepler_to_cartesian 1 (- (1 / 2)) 0 0 0 0 default_mu 2 (1461 / 4) = Inr ps
            \<and> length ps = nat 2"
    using propagate_without_validation [where a = 1 and mu = default_mu and e = "- (1 / 2)"
        and i_deg = 0 and omega_deg = 0 and w_deg = 0 and M_deg = 0 and steps = 2
        and timespan_days = "1461 / 4"]
      mu
    by simp
  from zero_axis negative_axis one_step hyperbolic no_steps negative_e mu show ?thesis
    by simp
qed

end
